theory Spec2Isabelle
  imports Complex_Main "HOL-Library.AList" "HOL-Library.Product_Lexorder" "HOL-Library.Multiset"
begin

section \<open>Python values\<close>

text \<open>
  Values that the code handles without a static type (JSON payloads, metadata dictionaries)
  are terms of \<open>pyval\<close>. A \<open>dict\<close> is an association list in insertion order with
  distinct keys: \<open>map_of\<close> reads a key, \<open>AList.update\<close> stores one (in place when the key
  is there, at the end otherwise, as a Python dict does) and \<open>AList.delete\<close> removes one.
  Floats (timestamps, delays, confidences) are exact reals: rounding is not modelled.
\<close>

datatype pyval =
    PNone
  | PBool bool
  | PInt int
  | PFloat real
  | PStr string
  | PList "pyval list"
  | PDict "(string \<times> pyval) list"

type_synonym pydict = "(string \<times> pyval) list"

text \<open>Truth value of an object, as \<open>if x:\<close> tests it.\<close>

fun truthy :: "pyval \<Rightarrow> bool" where
  "truthy PNone = False"
| "truthy (PBool b) = b"
| "truthy (PInt n) = (n \<noteq> 0)"
| "truthy (PFloat x) = (x \<noteq> 0)"
| "truthy (PStr s) = (s \<noteq> [])"
| "truthy (PList xs) = (xs \<noteq> [])"
| "truthy (PDict d) = (d \<noteq> [])"

text \<open>\<open>d.get(k, default)\<close> and \<open>d.update(other)\<close>.\<close>

definition dict_get :: "pydict \<Rightarrow> string \<Rightarrow> pyval \<Rightarrow> pyval" where
  "dict_get d k dflt = (case map_of d k of Some v \<Rightarrow> v | None \<Rightarrow> dflt)"

definition dict_update :: "pydict \<Rightarrow> pydict \<Rightarrow> pydict" where
  "dict_update d other = fold (\<lambda>kv. AList.update (fst kv) (snd kv)) other d"

text \<open>
  Slices \<open>xs[i:]\<close> and \<open>xs[:i]\<close> for an integer \<open>i\<close>: a negative index counts from the
  end and is clamped at the start of the list; \<open>-0\<close> is \<open>0\<close>.
\<close>

definition slice_from :: "int \<Rightarrow> 'a list \<Rightarrow> 'a list" where
  "slice_from i xs =
     (if 0 \<le> i then drop (nat i) xs else drop (length xs - nat (- i)) xs)"

definition slice_to :: "int \<Rightarrow> 'a list \<Rightarrow> 'a list" where
  "slice_to i xs =
     (if 0 \<le> i then take (nat i) xs else take (length xs - nat (- i)) xs)"

text \<open>
  \<open>str.lower()\<close> and \<open>str.strip()\<close> on ASCII text. A \<open>char\<close> is a byte: bytes from
  \<open>0x80\<close> on (UTF-8 encoded code points outside ASCII) are left as they are.
\<close>

definition lower_char :: "char \<Rightarrow> char" where
  "lower_char c =
     (case map_of (zip ''ABCDEFGHIJKLMNOPQRSTUVWXYZ'' ''abcdefghijklmnopqrstuvwxyz'') c of
        Some d \<Rightarrow> d
      | None \<Rightarrow> c)"

definition lower :: "string \<Rightarrow> string" where
  "lower s = map lower_char s"

definition is_space :: "char \<Rightarrow> bool" where
  "is_space c =
     (List.member
        [CHR 0x20, CHR 0x09, CHR 0x0A, CHR 0x0B, CHR 0x0C, CHR 0x0D,
         CHR 0x1C, CHR 0x1D, CHR 0x1E, CHR 0x1F] c)"

definition strip :: "string \<Rightarrow> string" where
  "strip s = rev (dropWhile is_space (rev (dropWhile is_space s)))"

text \<open>Exceptions, as values.\<close>

datatype py_error =
    ConnectionError string
  | TimeoutError string
  | RuntimeError pyval   \<comment> \<open>\<open>RuntimeError(f"Brain error: {error}")\<close>, carrying \<open>error\<close>\<close>
  | AttributeError
  | TypeError
  | CancelledError
  | CallbackError string \<comment> \<open>whatever a caller-supplied callback raised\<close>

section \<open>context.py: turns, entities, topics\<close>

datatype Role = USER | BRAIN | SYSTEM

record Entity =
  entity_id :: string
  canonical_name :: string
  entity_type :: string
  aliases :: "string list"
  entity_metadata :: pydict
  last_referenced_at :: real
  reference_count :: int

text \<open>
  A \<open>Turn\<close> is data that is written once and copied into the payload; its content, intent
  and entity names hold what the parsed response holds, whatever its type (\<open>None\<close> is
  \<open>PNone\<close>).
\<close>

record Turn =
  turn_id :: string
  role :: Role
  content :: pyval
  timestamp :: real
  entities_mentioned :: "pyval list"
  intent :: pyval
  turn_metadata :: pydict

text \<open>
  \<open>ConversationContext\<close>. \<open>entities\<close> is the dict \<open>_entities\<close>, keyed by entity id, in
  insertion order (the order \<open>values()\<close> iterates in, and the order a stable sort keeps
  among equal keys).
\<close>

record ConversationContext =
  session_id :: string
  window_size :: int
  max_entities :: int
  turns :: "Turn list"
  entities :: "(string \<times> Entity) list"
  session_summary :: string
  created_at :: real
  topic_stack :: "string list"

text \<open>
  \<open>__init__\<close>. \<open>uuid\<close> is the value \<open>str(uuid.uuid4())\<close> draws and \<open>now\<close> the value of
  \<open>time.time()\<close>; \<open>session_id or uuid\<close> takes the generated one for \<open>None\<close> and for \<open>""\<close>.
\<close>

definition new_context :: "string option \<Rightarrow> int \<Rightarrow> int \<Rightarrow> string \<Rightarrow> real \<Rightarrow> ConversationContext" where
  "new_context sid wsize maxe uuid now =
     \<lparr> session_id = (case sid of None \<Rightarrow> uuid | Some s \<Rightarrow> if s = [] then uuid else s),
       window_size = wsize,
       max_entities = maxe,
       turns = [],
       entities = [],
       session_summary = [],
       created_at = now,
       topic_stack = [] \<rparr>"

definition add_user_turn ::
  "ConversationContext \<Rightarrow> string \<Rightarrow> real \<Rightarrow> string \<Rightarrow> pydict option \<Rightarrow> ConversationContext \<times> Turn" where
  "add_user_turn ctx uuid now text meta =
     (let turn = \<lparr> turn_id = uuid, role = USER, content = PStr text, timestamp = now,
                     entities_mentioned = [], intent = PNone,
                     turn_metadata = (case meta of None \<Rightarrow> [] | Some m \<Rightarrow> m) \<rparr>
      in (ctx\<lparr>turns := turns ctx @ [turn]\<rparr>, turn))"

definition add_brain_turn ::
  "ConversationContext \<Rightarrow> string \<Rightarrow> real \<Rightarrow> pyval \<Rightarrow> pyval \<Rightarrow> pyval list option
     \<Rightarrow> pydict option \<Rightarrow> ConversationContext \<times> Turn" where
  "add_brain_turn ctx uuid now text int_opt ents meta =
     (let turn = \<lparr> turn_id = uuid, role = BRAIN, content = text, timestamp = now,
                     entities_mentioned = (case ents of None \<Rightarrow> [] | Some es \<Rightarrow> es),
                     intent = int_opt,
                     turn_metadata = (case meta of None \<Rightarrow> [] | Some m \<Rightarrow> m) \<rparr>
      in (ctx\<lparr>turns := turns ctx @ [turn]\<rparr>, turn))"

definition add_system_turn ::
  "ConversationContext \<Rightarrow> string \<Rightarrow> real \<Rightarrow> string \<Rightarrow> ConversationContext \<times> Turn" where
  "add_system_turn ctx uuid now text =
     (let turn = \<lparr> turn_id = uuid, role = SYSTEM, content = PStr text, timestamp = now,
                     entities_mentioned = [], intent = PNone, turn_metadata = [] \<rparr>
      in (ctx\<lparr>turns := turns ctx @ [turn]\<rparr>, turn))"

subsection \<open>Entity tracking\<close>

text \<open>\<open>find_entity\<close>: the first entity, in the dict's order, whose lowered canonical name
  or one of whose lowered aliases equals the lowered and stripped needle.\<close>

definition entity_matches :: "string \<Rightarrow> Entity \<Rightarrow> bool" where
  "entity_matches needle e =
     (lower (canonical_name e) = needle \<or> list_ex (\<lambda>a. lower a = needle) (aliases e))"

definition find_entity :: "ConversationContext \<Rightarrow> string \<Rightarrow> Entity option" where
  "find_entity ctx name_or_alias =
     (let needle = strip (lower name_or_alias)
      in find (entity_matches needle) (map snd (entities ctx)))"

text \<open>\<open>Entity.touch\<close>.\<close>

definition touch :: "real \<Rightarrow> Entity \<Rightarrow> Entity" where
  "touch now e = e\<lparr>last_referenced_at := now, reference_count := reference_count e + 1\<rparr>"

text \<open>The loop that appends each new alias not yet present, compared in lower case.\<close>

fun merge_aliases :: "string list \<Rightarrow> string list \<Rightarrow> string list" where
  "merge_aliases existing [] = existing"
| "merge_aliases existing (a # rest) =
     merge_aliases
       (if List.member (map lower existing) (lower a) then existing else existing @ [a]) rest"

text \<open>\<open>sorted_entities[:to_remove]\<close> of \<open>_evict_stale_entities\<close>: the entities to delete.\<close>

definition eviction_key :: "Entity \<Rightarrow> int \<times> real" where
  "eviction_key e = (reference_count e, last_referenced_at e)"

definition eviction_victims :: "ConversationContext \<Rightarrow> Entity list" where
  "eviction_victims ctx =
     (let sorted_entities = sort_key eviction_key (map snd (entities ctx));
          to_remove = int (length (entities ctx)) - max_entities ctx
      in slice_to to_remove sorted_entities)"

definition evict_stale_entities :: "ConversationContext \<Rightarrow> ConversationContext" where
  "evict_stale_entities ctx =
     ctx\<lparr>entities := fold (\<lambda>e. AList.delete (entity_id e)) (eviction_victims ctx) (entities ctx)\<rparr>"

text \<open>
  \<open>track_entity\<close>. The found entity is an object of the dict, mutated in place: the model
  writes the updated entity back under its id. \<open>uuid\<close> and \<open>now\<close> are the values
  \<open>uuid.uuid4()\<close> and \<open>time.time()\<close> give in this call.
\<close>

definition fresh_entity ::
  "string \<Rightarrow> real \<Rightarrow> string \<Rightarrow> string \<Rightarrow> string list option \<Rightarrow> pydict option \<Rightarrow> Entity" where
  "fresh_entity uuid now name etype als meta =
     \<lparr> entity_id = uuid, canonical_name = name, entity_type = etype,
       aliases = (case als of None \<Rightarrow> [] | Some a \<Rightarrow> a),
       entity_metadata = (case meta of None \<Rightarrow> [] | Some m \<Rightarrow> m),
       last_referenced_at = now, reference_count = 1 \<rparr>"

definition insert_entity ::
  "ConversationContext \<Rightarrow> string \<Rightarrow> real \<Rightarrow> string \<Rightarrow> string \<Rightarrow> string list option
     \<Rightarrow> pydict option \<Rightarrow> ConversationContext \<times> Entity" where
  "insert_entity ctx uuid now name etype als meta =
     (let entity = fresh_entity uuid now name etype als meta
      in (ctx\<lparr>entities := AList.update uuid entity (entities ctx)\<rparr>, entity))"

text \<open>The branch \<open>if existing:\<close>: the touch, the new aliases, the new metadata.\<close>

definition reinforce :: "real \<Rightarrow> string list option \<Rightarrow> pydict option \<Rightarrow> Entity \<Rightarrow> Entity" where
  "reinforce now als meta existing =
     (let e1 = touch now existing;
          e2 = (case als of None \<Rightarrow> e1
                | Some a \<Rightarrow> e1\<lparr>aliases := merge_aliases (aliases e1) a\<rparr>)
      in case meta of
           None \<Rightarrow> e2
         | Some m \<Rightarrow> if m = [] then e2
                     else e2\<lparr>entity_metadata := dict_update (entity_metadata e2) m\<rparr>)"

definition track_entity ::
  "ConversationContext \<Rightarrow> string \<Rightarrow> real \<Rightarrow> string \<Rightarrow> string \<Rightarrow> string list option
     \<Rightarrow> pydict option \<Rightarrow> ConversationContext \<times> Entity" where
  "track_entity ctx uuid now name etype als meta =
     (case find_entity ctx name of
        Some existing \<Rightarrow>
          (let e = reinforce now als meta existing
           in (ctx\<lparr>entities := AList.update (entity_id e) e (entities ctx)\<rparr>, e))
      | None \<Rightarrow>
          (let (ctx1, entity) = insert_entity ctx uuid now name etype als meta
           in if int (length (entities ctx1)) > max_entities ctx1
              then (evict_stale_entities ctx1, entity)
              else (ctx1, entity)))"

text \<open>
  A sequence of calls of \<open>track_entity\<close>, each with the id and the time it draws, and
  what holds of the dict \<open>_entities\<close> throughout: its keys are distinct and every entity is
  stored under its own id.
\<close>

record entity_call =
  call_uuid :: string
  call_time :: real
  call_name :: string
  call_type :: string
  call_aliases :: "string list option"
  call_metadata :: "pydict option"

definition track_call :: "ConversationContext \<Rightarrow> entity_call \<Rightarrow> ConversationContext" where
  "track_call ctx c =
     fst (track_entity ctx (call_uuid c) (call_time c) (call_name c) (call_type c)
            (call_aliases c) (call_metadata c))"

definition track_calls :: "ConversationContext \<Rightarrow> entity_call list \<Rightarrow> ConversationContext" where
  "track_calls ctx cs = foldl track_call ctx cs"



text \<open>
  A sequence of calls that all refer to one entity: the name of each call, in lower case,
  is the entity's canonical name in lower case or one of its aliases in lower case, as the
  entity is when the call is made, and the name has no white space around it.
\<close>

fun refers :: "Entity \<Rightarrow> entity_call list \<Rightarrow> bool" where
  "refers e [] = True"
| "refers e (c # cs) =
     ((lower (call_name c) = lower (canonical_name e)
         \<or> List.member (map lower (aliases e)) (lower (call_name c)))
      \<and> strip (lower (call_name c)) = lower (call_name c)
      \<and> refers (reinforce (call_time c) (call_aliases c) (call_metadata c) e) cs)"


definition get_recent_entities :: "ConversationContext \<Rightarrow> int \<Rightarrow> Entity list" where
  "get_recent_entities ctx limit =
     slice_to limit (rev (sort_key last_referenced_at (rev (map snd (entities ctx)))))"

subsection \<open>Topic stack\<close>

definition current_topic :: "ConversationContext \<Rightarrow> string option" where
  "current_topic ctx = (if topic_stack ctx = [] then None else Some (last (topic_stack ctx)))"

definition push_topic :: "ConversationContext \<Rightarrow> string \<Rightarrow> ConversationContext" where
  "push_topic ctx topic =
     (if topic_stack ctx = [] \<or> last (topic_stack ctx) \<noteq> topic
      then (let st = topic_stack ctx @ [topic]
            in ctx\<lparr>topic_stack := (if length st > 20 then slice_from (- 20) st else st)\<rparr>)
      else ctx)"

definition update_session_summary :: "ConversationContext \<Rightarrow> string \<Rightarrow> ConversationContext" where
  "update_session_summary ctx summary = ctx\<lparr>session_summary := summary\<rparr>"

subsection \<open>The payload for the brain\<close>

record TurnView =
  tv_role :: Role
  tv_content :: pyval
  tv_timestamp :: real
  tv_intent :: pyval
  tv_entities :: "pyval list"

record EntityView =
  ev_id :: string
  ev_name :: string
  ev_type :: string
  ev_aliases :: "string list"
  ev_metadata :: pydict
  ev_ref_count :: int

record BrainContext =
  bc_session_id :: string
  bc_session_summary :: string
  bc_current_topic :: "string option"
  bc_topic_history :: "string list"
  bc_turns :: "TurnView list"
  bc_tracked_entities :: "EntityView list"
  bc_turn_count :: nat
  bc_session_age_seconds :: real

definition turn_view :: "Turn \<Rightarrow> TurnView" where
  "turn_view t =
     \<lparr> tv_role = role t, tv_content = content t, tv_timestamp = timestamp t,
       tv_intent = intent t, tv_entities = entities_mentioned t \<rparr>"

definition entity_view :: "Entity \<Rightarrow> EntityView" where
  "entity_view e =
     \<lparr> ev_id = entity_id e, ev_name = canonical_name e, ev_type = entity_type e,
       ev_aliases = aliases e, ev_metadata = entity_metadata e,
       ev_ref_count = reference_count e \<rparr>"

text \<open>\<open>get_brain_context\<close>: the window is \<open>self._turns[-self.window_size:]\<close>.\<close>

definition get_brain_context :: "ConversationContext \<Rightarrow> real \<Rightarrow> BrainContext" where
  "get_brain_context ctx now =
     (let window_turns = slice_from (- window_size ctx) (turns ctx);
          recent_entities = get_recent_entities ctx 15
      in \<lparr> bc_session_id = session_id ctx,
           bc_session_summary = session_summary ctx,
           bc_current_topic = current_topic ctx,
           bc_topic_history = slice_from (- 5) (topic_stack ctx),
           bc_turns = map turn_view window_turns,
           bc_tracked_entities = map entity_view recent_entities,
           bc_turn_count = length (turns ctx),
           bc_session_age_seconds = now - created_at ctx \<rparr>)"

section \<open>state.py: the state tracker\<close>

datatype ConversationState =
    IDLE | GREETING | QUERYING | DEBRIEFING | ACTION_REQUESTED | CLARIFYING | CONFIRMING
  | FOLLOWING_UP | MULTI_TURN_TASK | ERROR_RECOVERY | FAREWELL

record StateSnapshot =
  state :: ConversationState
  entered_at :: real
  exited_at :: "real option"
  trigger_turn_id :: "string option"
  snapshot_metadata :: pydict

text \<open>
  \<open>StateTracker\<close>. A listener is a caller's function of the old and the new snapshot; what
  it returns is dropped and what it raises is swallowed, so the model keeps the listeners
  and records each call in \<open>notified\<close> (a log the source does not have). The object
  \<open>_current\<close> is also the last element of \<open>_history\<close>: closing it changes both.
\<close>

type_synonym listener = "StateSnapshot \<Rightarrow> StateSnapshot \<Rightarrow> py_error option"

record StateTracker =
  current :: StateSnapshot
  history :: "StateSnapshot list"
  listeners :: "listener list"
  notified :: "(StateSnapshot \<times> StateSnapshot) list"

definition new_tracker :: "real \<Rightarrow> StateTracker" where
  "new_tracker now =
     (let cur = \<lparr> state = IDLE, entered_at = now, exited_at = None,
                    trigger_turn_id = None, snapshot_metadata = [] \<rparr>
      in \<lparr> current = cur, history = [cur], listeners = [], notified = [] \<rparr>)"

definition current_state :: "StateTracker \<Rightarrow> ConversationState" where
  "current_state tr = state (current tr)"

definition transition ::
  "StateTracker \<Rightarrow> real \<Rightarrow> ConversationState \<Rightarrow> string option \<Rightarrow> pydict option
     \<Rightarrow> StateTracker \<times> StateSnapshot" where
  "transition tr now new_state trigger meta =
     (let closed = (current tr)\<lparr>exited_at := Some now\<rparr>;
          snapshot = \<lparr> state = new_state, entered_at = now, exited_at = None,
                         trigger_turn_id = trigger,
                         snapshot_metadata = (case meta of None \<Rightarrow> [] | Some m \<Rightarrow> m) \<rparr>;
          h1 = (if history tr = [] then [] else butlast (history tr) @ [closed]) @ [snapshot];
          h2 = (if length h1 > 500 then slice_from (- 500) h1 else h1)
      in (tr\<lparr> current := snapshot, history := h2,
               notified := notified tr @ map (\<lambda>l. (closed, snapshot)) (listeners tr) \<rparr>,
          snapshot))"

definition on_transition :: "StateTracker \<Rightarrow> listener \<Rightarrow> StateTracker" where
  "on_transition tr callback = tr\<lparr>listeners := listeners tr @ [callback]\<rparr>"

definition last_n_states :: "StateTracker \<Rightarrow> int \<Rightarrow> ConversationState list" where
  "last_n_states tr n = map state (slice_from (- n) (history tr))"

section \<open>engine.py: the response model\<close>

text \<open>
  \<open>BrainResponse\<close>. \<open>from_gateway_response\<close> stores what \<open>content.get\<close> returns, without
  a check of its type, so these fields are \<open>pyval\<close>s.
\<close>

record BrainResponse =
  resp_text :: pyval
  resp_intent :: pyval
  resp_state :: "ConversationState option"
  resp_entities :: pyval
  suggested_actions :: pyval
  follow_up :: pyval
  confidence :: pyval
  needs_clarification :: pyval
  context_summary_update :: pyval
  raw :: pydict
  latency_ms :: real

text \<open>The dataclass's defaults, around a text.\<close>

definition brain_response :: "pyval \<Rightarrow> BrainResponse" where
  "brain_response txt =
     \<lparr> resp_text = txt, resp_intent = PNone, resp_state = None, resp_entities = PList [],
       suggested_actions = PList [], follow_up = PNone, confidence = PFloat 1,
       needs_clarification = PBool False, context_summary_update = PNone, raw = [],
       latency_ms = 0 \<rparr>"

text \<open>\<open>ConversationState(raw_state)\<close>, with \<open>None\<close> for the \<open>ValueError\<close> that is caught.\<close>

definition conversation_state_of :: "pyval \<Rightarrow> ConversationState option" where
  "conversation_state_of v =
     (case v of
        PStr s \<Rightarrow>
          map_of
            [(''idle'', IDLE), (''greeting'', GREETING), (''querying'', QUERYING),
             (''debriefing'', DEBRIEFING), (''action_requested'', ACTION_REQUESTED),
             (''clarifying'', CLARIFYING), (''confirming'', CONFIRMING),
             (''following_up'', FOLLOWING_UP), (''multi_turn_task'', MULTI_TURN_TASK),
             (''error_recovery'', ERROR_RECOVERY), (''farewell'', FAREWELL)] s
      | _ \<Rightarrow> None)"

text \<open>
  \<open>from_gateway_response\<close>. \<open>json_loads\<close> is \<open>json.loads\<close>, with \<open>None\<close> for
  \<open>JSONDecodeError\<close>. A content that is not a dict after decoding has no \<open>get\<close>:
  \<open>AttributeError\<close>.
\<close>

definition from_gateway_response ::
  "(string \<Rightarrow> pyval option) \<Rightarrow> pydict \<Rightarrow> real \<Rightarrow> py_error + BrainResponse" where
  "from_gateway_response json_loads data latency =
     (let content0 = dict_get data ''content'' (PDict data);
          decoded = (case content0 of
                       PStr s \<Rightarrow> (case json_loads s of None \<Rightarrow> Inl s | Some v \<Rightarrow> Inr v)
                     | v \<Rightarrow> Inr v)
      in case decoded of
           Inl s \<Rightarrow> Inr ((brain_response (PStr s))\<lparr>raw := data, latency_ms := latency\<rparr>)
         | Inr (PDict c) \<Rightarrow>
             (let raw_state = dict_get c ''inferred_state'' PNone;
                  st = (if truthy raw_state then conversation_state_of raw_state else None)
              in Inr \<lparr> resp_text = dict_get c ''response_text'' (PStr []),
                       resp_intent = dict_get c ''inferred_intent'' PNone,
                       resp_state = st,
                       resp_entities = dict_get c ''entities_detected'' (PList []),
                       suggested_actions = dict_get c ''suggested_actions'' (PList []),
                       follow_up = dict_get c ''follow_up_prompt'' PNone,
                       confidence = dict_get c ''confidence'' (PFloat 1),
                       needs_clarification = dict_get c ''needs_clarification'' (PBool False),
                       context_summary_update = dict_get c ''context_summary_update'' PNone,
                       raw = data,
                       latency_ms = latency \<rparr>)
         | Inr _ \<Rightarrow> Inl AttributeError)"

text \<open>\<open>BrainResponse.error\<close>.\<close>

definition error_response :: "string \<Rightarrow> BrainResponse" where
  "error_response message =
     (brain_response (PStr message))
       \<lparr> resp_intent := PStr ''error'', resp_state := Some ERROR_RECOVERY,
         confidence := PFloat 0 \<rparr>"

section \<open>engine.py: the engine\<close>

text \<open>
  A callback of the configuration is a caller's function; the model keeps what it raises
  (\<open>None\<close> when it returns) and records each call in the log \<open>fired\<close>, which the source
  does not have. \<open>sent\<close> records, in the same way, the conversation payloads handed to
  \<open>gateway.send\<close>.
\<close>

datatype callback_event = OnResponse BrainResponse | OnAction pyval | OnError py_error

record EngineConfig =
  context_window_size :: int
  config_max_entities :: int
  auto_compress_at :: int
  response_timeout :: real
  system_prompt_override :: "string option"
  on_response :: "(BrainResponse \<Rightarrow> py_error option) option"
  on_action :: "(pyval \<Rightarrow> py_error option) option"
  on_error :: "(py_error \<Rightarrow> py_error option) option"

text \<open>\<open>build_brain_payload\<close> of prompts.py; \<open>None\<close> stands for the built-in system prompt.\<close>

record BrainPayload =
  payload_type :: string
  system_prompt :: "string option"
  user_message :: string
  payload_context :: BrainContext

definition build_brain_payload :: "string \<Rightarrow> BrainContext \<Rightarrow> string option \<Rightarrow> BrainPayload" where
  "build_brain_payload message bctx override =
     \<lparr> payload_type = ''conversation'',
       system_prompt = (case override of None \<Rightarrow> None | Some p \<Rightarrow> if p = [] then None else Some p),
       user_message = message,
       payload_context = bctx \<rparr>"

record ConversationEngine =
  config :: EngineConfig
  engine_context :: ConversationContext
  tracker :: StateTracker
  started :: bool
  processing :: bool
  fired :: "callback_event list"
  sent :: "BrainPayload list"

text \<open>
  What the world answers during one call of \<open>process\<close>: the outcome of
  \<open>gateway.connect\<close> (asked only when the engine is not started) and of the two calls of
  \<open>gateway.send\<close>, \<open>json.loads\<close>, \<open>str\<close> of a dict, and the values that \<open>uuid.uuid4()\<close>
  and \<open>time.time()\<close> give at each place that asks for one.
\<close>

record ProcessEnv =
  connect_result :: "py_error option"
  compress_result :: "py_error + pydict"
  send_result :: "py_error + pydict"
  json_loads :: "string \<Rightarrow> pyval option"
  py_str :: "pyval \<Rightarrow> string"
  uuid_user_turn :: string
  uuid_brain_turn :: string
  uuid_error_turn :: string
  uuid_entity :: "nat \<Rightarrow> string"
  time_start :: real
  time_user_turn :: real
  time_context :: real
  time_parsed :: real
  time_brain_turn :: real
  time_entity :: "nat \<Rightarrow> real"
  time_transition :: real
  time_error_turn :: real
  time_error_transition :: real

definition new_engine :: "EngineConfig \<Rightarrow> string \<Rightarrow> real \<Rightarrow> real \<Rightarrow> ConversationEngine" where
  "new_engine cfg uuid now_context now_state =
     \<lparr> config = cfg,
       engine_context = new_context None (context_window_size cfg) (config_max_entities cfg) uuid now_context,
       tracker = new_tracker now_state,
       started = False, processing = False, fired = [], sent = [] \<rparr>"

text \<open>\<open>start\<close>: the error of \<open>gateway.connect\<close> leaves the engine as it is.\<close>

definition start :: "ConversationEngine \<Rightarrow> py_error option \<Rightarrow> ConversationEngine \<times> py_error option" where
  "start eng conn =
     (if started eng then (eng, None)
      else case conn of
             Some e \<Rightarrow> (eng, Some e)
           | None \<Rightarrow> (eng\<lparr>started := True\<rparr>, None))"

text \<open>
  \<open>new_session\<close>: a new context and a new tracker; \<open>uuid\<close> is the session id drawn,
  \<open>now_context\<close> and \<open>now_state\<close> the two readings of the clock.
\<close>

definition new_session ::
  "ConversationEngine \<Rightarrow> string \<Rightarrow> real \<Rightarrow> real \<Rightarrow> ConversationEngine \<times> string" where
  "new_session eng uuid now_context now_state =
     (let eng' = eng\<lparr> engine_context := new_context None (context_window_size (config eng))
                                    (config_max_entities (config eng)) uuid now_context,
                      tracker := new_tracker now_state \<rparr>
      in (eng', session_id (engine_context eng')))"

subsection \<open>Iteration over, and typed views of, untyped values\<close>

text \<open>\<open>for x in v\<close>: a list gives its elements, a string its characters, a dict its keys;
  nothing else in a JSON value is iterable.\<close>

definition py_iter :: "pyval \<Rightarrow> py_error + pyval list" where
  "py_iter v =
     (case v of
        PList xs \<Rightarrow> Inr xs
      | PStr s \<Rightarrow> Inr (map (\<lambda>c. PStr [c]) s)
      | PDict d \<Rightarrow> Inr (map (\<lambda>kv. PStr (fst kv)) d)
      | _ \<Rightarrow> Inl TypeError)"

definition as_dict :: "pyval \<Rightarrow> pydict option" where
  "as_dict v = (case v of PDict d \<Rightarrow> Some d | _ \<Rightarrow> None)"

definition as_str :: "pyval \<Rightarrow> string option" where
  "as_str v = (case v of PStr s \<Rightarrow> Some s | _ \<Rightarrow> None)"

definition as_str_list :: "pyval \<Rightarrow> string list option" where
  "as_str_list v =
     (if \<not> truthy v then Some []
      else case v of
             PList xs \<Rightarrow> if list_all (\<lambda>x. as_str x \<noteq> None) xs
                         then Some (map (\<lambda>x. the (as_str x)) xs) else None
           | _ \<Rightarrow> None)"

text \<open>The elements of \<open>response.entities\<close>, each of which must have a \<open>get\<close>.\<close>

definition entity_dicts :: "pyval \<Rightarrow> py_error + pydict list" where
  "entity_dicts v =
     (case py_iter v of
        Inl e \<Rightarrow> Inl e
      | Inr xs \<Rightarrow> if list_all (\<lambda>x. as_dict x \<noteq> None) xs
                  then Inr (map (\<lambda>x. the (as_dict x)) xs)
                  else Inl AttributeError)"

subsection \<open>The steps of the pipeline\<close>

text \<open>
  \<open>_process_entities\<close>. A name that is not a string has no \<open>lower\<close>: \<open>AttributeError\<close>.
  The entity registry is typed (\<open>entity_type: str\<close>, \<open>aliases: list[str]\<close>): where the
  brain sends another type for one of the two, Python stores it unchecked and the model
  stops with \<open>TypeError\<close>. The same holds for a summary update and an intent that are
  true but not strings (steps 9 and 10).
\<close>

fun process_entities ::
  "ConversationContext \<Rightarrow> (nat \<Rightarrow> string) \<Rightarrow> (nat \<Rightarrow> real) \<Rightarrow> nat \<Rightarrow> pydict list
     \<Rightarrow> ConversationContext \<times> py_error option" where
  "process_entities ctx uu tm i [] = (ctx, None)"
| "process_entities ctx uu tm i (d # ds) =
     (let name = dict_get d ''name'' PNone
      in if \<not> truthy name then process_entities ctx uu tm i ds
         else case as_str name of
                None \<Rightarrow> (ctx, Some AttributeError)
              | Some n \<Rightarrow>
                  (case (as_str (dict_get d ''type'' (PStr ''other'')),
                         as_str_list (dict_get d ''aliases'' (PList []))) of
                     (Some ty, Some als) \<Rightarrow>
                       process_entities
                         (fst (track_entity ctx (uu i) (tm i) n ty (Some als)
                                 (Some (filter (\<lambda>kv. \<not> List.member [''name'', ''type'', ''aliases''] (fst kv)) d))))
                         uu tm (Suc i) ds
                   | _ \<Rightarrow> (ctx, Some TypeError)))"

text \<open>
  \<open>_maybe_compress_context\<close>: every exception of the request is swallowed. A summary that
  is true but not a string is not stored by the model.
\<close>

definition maybe_compress_context :: "ConversationEngine \<Rightarrow> ProcessEnv \<Rightarrow> ConversationEngine" where
  "maybe_compress_context eng env =
     (let n = int (length (turns (engine_context eng)))
      in if n < auto_compress_at (config eng) then eng
         else if n mod 10 \<noteq> 0 then eng
         else case compress_result env of
                Inl e \<Rightarrow> eng
              | Inr raw_msg \<Rightarrow>
                  (let summary0 = dict_get raw_msg ''content'' (PStr []);
                       summary = (case summary0 of
                                    PDict d \<Rightarrow> dict_get d ''response_text'' (PStr (py_str env summary0))
                                  | _ \<Rightarrow> summary0)
                   in if truthy summary
                      then (case as_str summary of
                              Some s \<Rightarrow> eng\<lparr>engine_context := update_session_summary (engine_context eng) s\<rparr>
                            | None \<Rightarrow> eng)
                      else eng))"

type_synonym 'a outcome = "ConversationEngine \<times> (py_error + 'a)"

definition and_then :: "'a outcome \<Rightarrow> (ConversationEngine \<Rightarrow> 'a \<Rightarrow> 'b outcome) \<Rightarrow> 'b outcome" where
  "and_then r f = (case snd r of Inl e \<Rightarrow> (fst r, Inl e) | Inr a \<Rightarrow> f (fst r) a)"

text \<open>Step 6: the brain turn, with the names of the detected entities.\<close>

definition record_brain_turn :: "ConversationEngine \<Rightarrow> ProcessEnv \<Rightarrow> BrainResponse \<Rightarrow> (pydict list) outcome" where
  "record_brain_turn eng env response =
     (case entity_dicts (resp_entities response) of
        Inl e \<Rightarrow> (eng, Inl e)
      | Inr ents \<Rightarrow>
          (eng\<lparr>engine_context :=
                 fst (add_brain_turn (engine_context eng) (uuid_brain_turn env) (time_brain_turn env)
                        (resp_text response) (resp_intent response)
                        (Some (map (\<lambda>e. dict_get e ''name'' (PStr [])) ents))
                        (Some [(''confidence'', confidence response),
                               (''latency_ms'', PFloat (latency_ms response)),
                               (''actions'', suggested_actions response)]))\<rparr>,
           Inr ents))"

text \<open>Step 7.\<close>

definition track_detected :: "ConversationEngine \<Rightarrow> ProcessEnv \<Rightarrow> pydict list \<Rightarrow> unit outcome" where
  "track_detected eng env ents =
     (let r = process_entities (engine_context eng) (uuid_entity env) (time_entity env) 0 ents
      in (eng\<lparr>engine_context := fst r\<rparr>, case snd r of None \<Rightarrow> Inr () | Some e \<Rightarrow> Inl e))"

text \<open>Step 8.\<close>

definition update_state :: "ConversationEngine \<Rightarrow> ProcessEnv \<Rightarrow> Turn \<Rightarrow> BrainResponse \<Rightarrow> ConversationEngine" where
  "update_state eng env user_turn response =
     (case resp_state response of
        None \<Rightarrow> eng
      | Some s \<Rightarrow>
          eng\<lparr>tracker := fst (transition (tracker eng) (time_transition env) s
                                 (Some (turn_id user_turn))
                                 (Some [(''intent'', resp_intent response)]))\<rparr>)"

text \<open>Steps 9 and 10.\<close>

definition apply_summary :: "ConversationEngine \<Rightarrow> BrainResponse \<Rightarrow> unit outcome" where
  "apply_summary eng response =
     (if truthy (context_summary_update response)
      then (case as_str (context_summary_update response) of
              Some s \<Rightarrow> (eng\<lparr>engine_context := update_session_summary (engine_context eng) s\<rparr>, Inr ())
            | None \<Rightarrow> (eng, Inl TypeError))
      else (eng, Inr ()))"

definition apply_topic :: "ConversationEngine \<Rightarrow> BrainResponse \<Rightarrow> unit outcome" where
  "apply_topic eng response =
     (if truthy (resp_intent response)
      then (case as_str (resp_intent response) of
              Some s \<Rightarrow> (eng\<lparr>engine_context := push_topic (engine_context eng) s\<rparr>, Inr ())
            | None \<Rightarrow> (eng, Inl TypeError))
      else (eng, Inr ()))"

text \<open>Step 11: each callback is called inside its own \<open>try\<close>; what it raises is logged
  and dropped. Only the iteration over the actions is outside.\<close>

definition fire_callbacks :: "ConversationEngine \<Rightarrow> BrainResponse \<Rightarrow> unit outcome" where
  "fire_callbacks eng response =
     (let eng1 = (case on_response (config eng) of
                    None \<Rightarrow> eng
                  | Some f \<Rightarrow> eng\<lparr>fired := fired eng @ [OnResponse response]\<rparr>)
      in if truthy (suggested_actions response) \<and> on_action (config eng) \<noteq> None
         then (case py_iter (suggested_actions response) of
                 Inl e \<Rightarrow> (eng1, Inl e)
               | Inr actions \<Rightarrow> (eng1\<lparr>fired := fired eng1 @ map OnAction actions\<rparr>, Inr ()))
         else (eng1, Inr ()))"

text \<open>The body of the \<open>try\<close>: the engine as it is when the body ends or raises.\<close>

definition process_body ::
  "ConversationEngine \<Rightarrow> ProcessEnv \<Rightarrow> string \<Rightarrow> pydict option \<Rightarrow> BrainResponse outcome" where
  "process_body eng env user_input metadata =
     (let added = add_user_turn (engine_context eng) (uuid_user_turn env) (time_user_turn env)
                    user_input metadata;
          user_turn = snd added;
          eng1 = eng\<lparr>engine_context := fst added\<rparr>;
          eng2 = (if int (length (turns (engine_context eng1))) > auto_compress_at (config eng1)
                  then maybe_compress_context eng1 env else eng1);
          payload = build_brain_payload user_input
                      (get_brain_context (engine_context eng2) (time_context env))
                      (system_prompt_override (config eng2));
          eng3 = eng2\<lparr>sent := sent eng2 @ [payload]\<rparr>
      in case send_result env of
           Inl e \<Rightarrow> (eng3, Inl e)
         | Inr raw_response \<Rightarrow>
             (case from_gateway_response (json_loads env) raw_response
                     ((time_parsed env - time_start env) * 1000) of
                Inl e \<Rightarrow> (eng3, Inl e)
              | Inr response \<Rightarrow>
                  and_then (record_brain_turn eng3 env response) (\<lambda>eng4 ents.
                  and_then (track_detected eng4 env ents) (\<lambda>eng5 u.
                  and_then (apply_summary (update_state eng5 env user_turn response) response) (\<lambda>eng6 u.
                  and_then (apply_topic eng6 response) (\<lambda>eng7 u.
                  and_then (fire_callbacks eng7 response) (\<lambda>eng8 u.
                    (eng8, Inr response))))))))"

text \<open>
  The handlers. Each builds the error response, records the apology as a brain turn, moves
  the tracker to \<open>ERROR_RECOVERY\<close> and calls \<open>on_error\<close>, outside any \<open>try\<close>: what
  \<open>on_error\<close> raises leaves \<open>process\<close>. \<open>CancelledError\<close> is not an \<open>Exception\<close>: no
  handler catches it.
\<close>

definition recover ::
  "ConversationEngine \<Rightarrow> ProcessEnv \<Rightarrow> string \<Rightarrow> py_error \<Rightarrow> BrainResponse outcome" where
  "recover eng env message exc =
     (let error_resp = error_response message;
          eng1 = eng\<lparr> engine_context := fst (add_brain_turn (engine_context eng) (uuid_error_turn env)
                                        (time_error_turn env) (resp_text error_resp)
                                        (PStr ''error'') None None),
                      tracker := fst (transition (tracker eng) (time_error_transition env)
                                        ERROR_RECOVERY None None) \<rparr>
      in case on_error (config eng) of
           None \<Rightarrow> (eng1, Inr error_resp)
         | Some f \<Rightarrow>
             (let eng2 = eng1\<lparr>fired := fired eng1 @ [OnError exc]\<rparr>
              in case f exc of
                   None \<Rightarrow> (eng2, Inr error_resp)
                 | Some raised \<Rightarrow> (eng2, Inl raised)))"

definition timeout_apology :: string where
  "timeout_apology =
     ''I'' @ [CHR 0x27] @ ''m having trouble connecting to my brain right now. Could you repeat that in a moment?''"

definition connection_apology :: string where
  "connection_apology =
     ''I'' @ [CHR 0x27] @ ''ve lost my connection. Give me a second to reconnect.''"

definition generic_apology :: string where
  "generic_apology = ''Something went wrong on my end. Let me try again.''"

definition handle_exception :: "ConversationEngine \<Rightarrow> ProcessEnv \<Rightarrow> py_error \<Rightarrow> BrainResponse outcome" where
  "handle_exception eng env exc =
     (case exc of
        TimeoutError m \<Rightarrow> recover eng env timeout_apology (TimeoutError ''Brain timeout'')
      | ConnectionError m \<Rightarrow> recover eng env connection_apology exc
      | CancelledError \<Rightarrow> (eng, Inl exc)
      | _ \<Rightarrow> recover eng env generic_apology exc)"

text \<open>What a handler passes to \<open>on_error\<close> and the apology it records, by exception.\<close>

definition reported :: "py_error \<Rightarrow> py_error" where
  "reported exc = (case exc of TimeoutError m \<Rightarrow> TimeoutError ''Brain timeout'' | _ \<Rightarrow> exc)"

definition apology :: "py_error \<Rightarrow> string" where
  "apology exc =
     (case exc of
        TimeoutError m \<Rightarrow> timeout_apology
      | ConnectionError m \<Rightarrow> connection_apology
      | _ \<Rightarrow> generic_apology)"

text \<open>
  \<open>process\<close>. \<open>start\<close> runs before the \<open>try\<close>: its \<open>ConnectionError\<close> leaves
  \<open>process\<close> as it is. \<open>finally\<close> clears \<open>_processing\<close> on every way out of the \<open>try\<close>.
\<close>

definition process ::
  "ConversationEngine \<Rightarrow> ProcessEnv \<Rightarrow> string \<Rightarrow> pydict option \<Rightarrow> BrainResponse outcome" where
  "process eng env user_input metadata =
     (case start eng (connect_result env) of
        (eng0, Some e) \<Rightarrow> (eng0, Inl e)
      | (eng0, None) \<Rightarrow>
          (let body = process_body (eng0\<lparr>processing := True\<rparr>) env user_input metadata;
               r = (case snd body of
                      Inr response \<Rightarrow> body
                    | Inl exc \<Rightarrow> handle_exception (fst body) env exc)
           in ((fst r)\<lparr>processing := False\<rparr>, snd r)))"

section \<open>gateway.py: the connection to the brain\<close>

text \<open>
  The gateway runs as coroutines on one event loop: between two \<open>await\<close>s a coroutine is
  alone. The model has one function for each such piece (\<open>connect\<close>, \<open>disconnect\<close>,
  \<open>_dispatch\<close>, the part of \<open>send\<close> before the wait and the part after it, the
  reconnection loop); what the network does is an argument. The health metrics, the status
  listeners and the two background tasks are left out.

  Every \<open>PendingRequest\<close> owns a future, which \<open>send\<close> keeps awaiting after the request
  has left the table \<open>_pending\<close>: the futures are a store of their own, \<open>futures\<close>, under
  the request id. Four logs that the source does not have record what happens:
  \<open>settlements\<close> (each \<open>set_result\<close> and \<open>set_exception\<close>), \<open>delivered\<close> (each chunk
  handed to a stream callback), \<open>transmitted\<close> (each message written to the socket) and
  \<open>slept\<close> (each sleep of the reconnection loop, with the attempt it precedes).
\<close>

datatype GatewayStatus = DISCONNECTED | CONNECTING | CONNECTED | RECONNECTING | FATAL

record GatewayConfig =
  reconnect_delay_base :: real
  reconnect_delay_max :: real
  reconnect_max_attempts :: int
  gateway_response_timeout :: real

record PendingRequest =
  request_id :: string
  payload :: pydict
  sent_at :: real
  timeout :: real

datatype future = Waiting | Result pydict | Exception py_error | Cancelled

type_synonym stream_callback = "pyval \<Rightarrow> py_error option"

record Gateway =
  gateway_config :: GatewayConfig
  ws :: bool  \<comment> \<open>\<open>self._ws is not None\<close>\<close>
  status :: GatewayStatus
  reconnect_attempt :: nat
  pending :: "(string \<times> PendingRequest) list"
  stream_callbacks :: "(string \<times> stream_callback) list"
  futures :: "(string \<times> future) list"
  settlements :: "(string \<times> future) list"
  delivered :: "(string \<times> pyval) list"
  transmitted :: "pydict list"
  slept :: "(nat \<times> real) list"
  reconnect_tasks :: nat  \<comment> \<open>\<open>asyncio.create_task(self._reconnect())\<close> calls\<close>

definition new_gateway :: "GatewayConfig \<Rightarrow> Gateway" where
  "new_gateway cfg =
     \<lparr> gateway_config = cfg, ws = False, status = DISCONNECTED, reconnect_attempt = 0,
       pending = [], stream_callbacks = [], futures = [], settlements = [], delivered = [],
       transmitted = [], slept = [], reconnect_tasks = 0 \<rparr>"

text \<open>The future of a request; \<open>done()\<close>; \<open>set_result\<close> and \<open>set_exception\<close>.\<close>

text \<open>A request id without an entry in the store has a future that nothing has touched.\<close>

definition future_of :: "Gateway \<Rightarrow> string \<Rightarrow> future" where
  "future_of gw rid = (case map_of (futures gw) rid of Some f \<Rightarrow> f | None \<Rightarrow> Waiting)"

definition future_done :: "Gateway \<Rightarrow> string \<Rightarrow> bool" where
  "future_done gw rid = (future_of gw rid \<noteq> Waiting)"

definition settle :: "Gateway \<Rightarrow> string \<Rightarrow> future \<Rightarrow> Gateway" where
  "settle gw rid f =
     gw\<lparr> futures := AList.update rid f (futures gw),
         settlements := settlements gw @ [(rid, f)] \<rparr>"

text \<open>
  \<open>connect\<close>; \<open>reachable\<close> tells whether \<open>websockets.connect\<close> succeeds within the
  timeout. A failure leaves \<open>_ws\<close> as it was.
\<close>

definition connect :: "Gateway \<Rightarrow> bool \<Rightarrow> Gateway \<times> py_error option" where
  "connect gw reachable =
     (if status gw = CONNECTED then (gw, None)
      else if reachable
      then (gw\<lparr>ws := True, status := CONNECTED, reconnect_attempt := 0\<rparr>, None)
      else (gw\<lparr>status := DISCONNECTED\<rparr>,
            Some (ConnectionError ''Cannot reach OpenClaw gateway'')))"

text \<open>The loop \<open>for req in self._pending.values(): if not req.future.done(): ...\<close>.\<close>

definition fail_pending :: "string \<Rightarrow> Gateway \<Rightarrow> Gateway" where
  "fail_pending message gw =
     fold (\<lambda>req g. if \<not> future_done g (request_id req)
                    then settle g (request_id req) (Exception (ConnectionError message))
                    else g)
          (map snd (pending gw)) gw"

definition disconnect :: "Gateway \<Rightarrow> Gateway" where
  "disconnect gw =
     (fail_pending ''Gateway disconnected'' gw)
       \<lparr>pending := [], ws := False, status := DISCONNECTED\<rparr>"

text \<open>
  \<open>_raw_send\<close>; \<open>socket_ok\<close> tells whether \<open>ws.send\<close> returns (otherwise it raises
  \<open>ConnectionClosed\<close>).
\<close>

definition raw_send :: "Gateway \<Rightarrow> bool \<Rightarrow> pydict \<Rightarrow> Gateway \<times> py_error option" where
  "raw_send gw socket_ok message =
     (if \<not> ws gw then (gw, Some (ConnectionError ''WebSocket not connected''))
      else if socket_ok then (gw\<lparr>transmitted := transmitted gw @ [message]\<rparr>, None)
      else (gw\<lparr>reconnect_tasks := Suc (reconnect_tasks gw)\<rparr>,
            Some (ConnectionError ''Connection lost during send'')))"

text \<open>The \<open>finally\<close> of \<open>send\<close>.\<close>

definition forget :: "Gateway \<Rightarrow> string \<Rightarrow> Gateway" where
  "forget gw rid =
     gw\<lparr> pending := AList.delete rid (pending gw),
         stream_callbacks := AList.delete rid (stream_callbacks gw) \<rparr>"

text \<open>
  \<open>send\<close>, up to the wait for the future. \<open>uuid\<close> is the request id drawn and \<open>now\<close>
  the clock. The result is the error raised, or the request id that is now awaited.
  \<open>connect\<close> runs before the \<open>try\<close>: when it fails nothing has been registered.
\<close>

definition send_begin ::
  "Gateway \<Rightarrow> bool \<Rightarrow> bool \<Rightarrow> string \<Rightarrow> real \<Rightarrow> pydict \<Rightarrow> real option \<Rightarrow> stream_callback option
     \<Rightarrow> Gateway \<times> (py_error + string)" where
  "send_begin gw reachable socket_ok uuid now pl tmo cb =
     (case (if status gw \<noteq> CONNECTED then connect gw reachable else (gw, None)) of
        (gw1, Some e) \<Rightarrow> (gw1, Inl e)
      | (gw1, None) \<Rightarrow>
          (let t = (case tmo of None \<Rightarrow> gateway_response_timeout (gateway_config gw1)
                    | Some x \<Rightarrow> if x = 0 then gateway_response_timeout (gateway_config gw1) else x);
               message = dict_update [(''request_id'', PStr uuid), (''type'', PStr ''conversation'')] pl;
               req = \<lparr> request_id = uuid, payload = message, sent_at = now, timeout = t \<rparr>;
               gw2 = gw1\<lparr> futures := AList.update uuid Waiting (futures gw1),
                          pending := AList.update uuid req (pending gw1) \<rparr>;
               gw3 = (case cb of None \<Rightarrow> gw2
                      | Some f \<Rightarrow> gw2\<lparr>stream_callbacks := AList.update uuid f (stream_callbacks gw2)\<rparr>)
           in case raw_send gw3 socket_ok message of
                (gw4, Some e) \<Rightarrow> (forget gw4 uuid, Inl e)
              | (gw4, None) \<Rightarrow> (gw4, Inr uuid)))"

text \<open>
  \<open>send\<close>, from the moment \<open>asyncio.wait_for(future, timeout)\<close> returns or raises. It
  returns when the future is done; on a future that is still waiting it raises because the
  timeout has elapsed, after cancelling the future.
\<close>

definition send_end :: "Gateway \<Rightarrow> string \<Rightarrow> Gateway \<times> (py_error + pydict)" where
  "send_end gw rid =
     (case future_of gw rid of
        Result m \<Rightarrow> (forget gw rid, Inr m)
      | Exception e \<Rightarrow> (forget gw rid, Inl e)
      | Cancelled \<Rightarrow> (forget gw rid, Inl CancelledError)
      | Waiting \<Rightarrow>
          (forget (gw\<lparr>futures := AList.update rid Cancelled (futures gw)\<rparr>) rid,
           Inl (TimeoutError ''Brain did not respond within the timeout'')))"

text \<open>
  \<open>_dispatch\<close>. A request id that is not a string is in neither table (a list or a dict as
  request id is unhashable and not modelled).
\<close>

definition registered :: "pyval \<Rightarrow> (string \<times> 'a) list \<Rightarrow> bool" where
  "registered v table = (case v of PStr r \<Rightarrow> map_of table r \<noteq> None | _ \<Rightarrow> False)"

definition str_of :: "pyval \<Rightarrow> string" where
  "str_of v = (case v of PStr r \<Rightarrow> r | _ \<Rightarrow> [])"

definition dispatch :: "Gateway \<Rightarrow> pydict \<Rightarrow> Gateway" where
  "dispatch gw message =
     (let rid = dict_get message ''request_id'' PNone;
          msg_type = dict_get message ''type'' (PStr ''response'')
      in if msg_type = PStr ''stream_chunk'' \<and> registered rid (stream_callbacks gw)
         then gw\<lparr>delivered := delivered gw @ [(str_of rid, dict_get message ''content'' (PStr []))]\<rparr>
         else if truthy rid \<and> registered rid (pending gw)
         then (if \<not> future_done gw (str_of rid)
               then (if truthy (dict_get message ''error'' PNone)
                     then settle gw (str_of rid)
                            (Exception (RuntimeError (dict_get message ''error'' PNone)))
                     else settle gw (str_of rid) (Result message))
               else gw)
         else gw)"

text \<open>
  \<open>_reconnect\<close>. Each turn of the loop asks the world once: whether the endpoint is
  reachable, the clock after connecting, and how many retransmissions the socket accepts
  before it closes (\<open>None\<close>: all of them). The loop can run for ever (no ceiling, endpoint
  never reachable), so it takes fuel: \<open>None\<close> is a run that has not ended yet.
\<close>

record attempt_env =
  reachable :: bool
  clock :: real
  accepted :: "nat option"

definition backoff_delay :: "GatewayConfig \<Rightarrow> nat \<Rightarrow> real" where
  "backoff_delay cfg attempt =
     min (reconnect_delay_base cfg * 2 ^ (attempt - 1)) (reconnect_delay_max cfg)"

text \<open>
  The retransmission after a successful connect: every request of the table that is within
  its timeout and whose future is not done goes through \<open>_raw_send\<close>; the first
  \<open>ConnectionError\<close> ends the loop.
\<close>

fun resend_all ::
  "Gateway \<Rightarrow> real \<Rightarrow> nat option \<Rightarrow> PendingRequest list \<Rightarrow> Gateway \<times> py_error option" where
  "resend_all gw now acc [] = (gw, None)"
| "resend_all gw now acc (req # reqs) =
     (if now - sent_at req < timeout req \<and> \<not> future_done gw (request_id req)
      then (case raw_send gw (acc \<noteq> Some 0) (payload req) of
              (gw1, Some err) \<Rightarrow> (gw1, Some err)
            | (gw1, None) \<Rightarrow> resend_all gw1 now (map_option (\<lambda>k. k - 1) acc) reqs)
      else resend_all gw now acc reqs)"

definition resend_pending :: "Gateway \<Rightarrow> attempt_env \<Rightarrow> Gateway \<times> py_error option" where
  "resend_pending gw e = resend_all gw (clock e) (accepted e) (map snd (pending gw))"

fun reconnect_loop :: "nat \<Rightarrow> (nat \<Rightarrow> attempt_env) \<Rightarrow> nat \<Rightarrow> Gateway \<Rightarrow> Gateway option" where
  "reconnect_loop 0 env k gw = None"
| "reconnect_loop (Suc fuel) env k gw =
     (let gw1 = gw\<lparr>reconnect_attempt := Suc (reconnect_attempt gw)\<rparr>;
          cfg = gateway_config gw1
      in if reconnect_max_attempts cfg > 0
            \<and> int (reconnect_attempt gw1) > reconnect_max_attempts cfg
         then Some ((fail_pending ''Gateway reconnection failed'' (gw1\<lparr>status := FATAL\<rparr>))
                      \<lparr>pending := []\<rparr>)
         else (let gw2 = gw1\<lparr>slept := slept gw1 @
                                 [(reconnect_attempt gw1, backoff_delay cfg (reconnect_attempt gw1))]\<rparr>
               in case connect gw2 (reachable (env k)) of
                    (gw3, Some err) \<Rightarrow> reconnect_loop fuel env (Suc k) gw3
                  | (gw3, None) \<Rightarrow>
                      (case resend_pending gw3 (env k) of
                         (gw4, Some err) \<Rightarrow> reconnect_loop fuel env (Suc k) gw4
                       | (gw4, None) \<Rightarrow> Some gw4)))"

definition reconnect :: "nat \<Rightarrow> (nat \<Rightarrow> attempt_env) \<Rightarrow> Gateway \<Rightarrow> Gateway option" where
  "reconnect fuel env gw = reconnect_loop fuel env 0 (gw\<lparr>status := RECONNECTING\<rparr>)"

text \<open>
  A run of the reader over a sequence of inbound messages, and the notions that the
  properties of \<open>_dispatch\<close> are stated with: the settlements of one request, the chunks
  delivered for it, the messages that settle it (they carry its id and are not chunks for
  its registered stream callback) and the outcome that such a message gives its future.
\<close>

definition dispatch_all :: "Gateway \<Rightarrow> pydict list \<Rightarrow> Gateway" where
  "dispatch_all gw messages = foldl dispatch gw messages"

definition settlements_of :: "string \<Rightarrow> Gateway \<Rightarrow> future list" where
  "settlements_of rid gw = map snd (filter (\<lambda>s. fst s = rid) (settlements gw))"

definition chunks_of :: "string \<Rightarrow> Gateway \<Rightarrow> pyval list" where
  "chunks_of rid gw = map snd (filter (\<lambda>s. fst s = rid) (delivered gw))"

definition chunk_for :: "Gateway \<Rightarrow> string \<Rightarrow> pydict \<Rightarrow> bool" where
  "chunk_for gw rid message =
     (dict_get message ''request_id'' PNone = PStr rid
      \<and> dict_get message ''type'' (PStr ''response'') = PStr ''stream_chunk''
      \<and> map_of (stream_callbacks gw) rid \<noteq> None)"

definition settling :: "Gateway \<Rightarrow> string \<Rightarrow> pydict \<Rightarrow> bool" where
  "settling gw rid message =
     (dict_get message ''request_id'' PNone = PStr rid \<and> \<not> chunk_for gw rid message)"

definition outcome_of :: "pydict \<Rightarrow> future" where
  "outcome_of message =
     (if truthy (dict_get message ''error'' PNone)
      then Exception (RuntimeError (dict_get message ''error'' PNone))
      else Result message)"


text \<open>Every request in the table is stored under its own id.\<close>

definition pending_ok :: "Gateway \<Rightarrow> bool" where
  "pending_ok gw = list_all (\<lambda>p. fst p = request_id (snd p)) (pending gw)"

section \<open>Sample inputs\<close>

text \<open>A started engine with the default configuration and a given error callback, and
  a world in which \<open>gateway.send\<close> has a given outcome.\<close>

definition sample_config :: "(py_error \<Rightarrow> py_error option) option \<Rightarrow> EngineConfig" where
  "sample_config cb =
     \<lparr> context_window_size = 20, config_max_entities = 200, auto_compress_at = 30,
       response_timeout = 60, system_prompt_override = None, on_response = None,
       on_action = None, on_error = cb \<rparr>"

definition sample_engine :: "(py_error \<Rightarrow> py_error option) option \<Rightarrow> ConversationEngine" where
  "sample_engine cb = (new_engine (sample_config cb) ''session-1'' 0 0)\<lparr>started := True\<rparr>"

definition sample_env :: "py_error + pydict \<Rightarrow> ProcessEnv" where
  "sample_env outcome =
     \<lparr> connect_result = None, compress_result = Inl (TimeoutError []),
       send_result = outcome, json_loads = (\<lambda>s. None), py_str = (\<lambda>v. []),
       uuid_user_turn = ''turn-1'', uuid_brain_turn = ''turn-2'', uuid_error_turn = ''turn-3'',
       uuid_entity = (\<lambda>i. ''entity''), time_start = 1, time_user_turn = 1,
       time_context = 1, time_parsed = 2, time_brain_turn = 2, time_entity = (\<lambda>i. 2),
       time_transition = 2, time_error_turn = 3, time_error_transition = 3 \<rparr>"





text \<open>The scenario of the tests: \<open>Marcus\<close>, then \<open>marcus\<close> again with the alias \<open>Marc\<close>.\<close>

definition call_N1 :: entity_call where
  "call_N1 = \<lparr> call_uuid = ''id-1'', call_time = 1, call_name = ''Marcus'',
                call_type = ''person'', call_aliases = None, call_metadata = None \<rparr>"

definition call_N2 :: entity_call where
  "call_N2 = \<lparr> call_uuid = ''id-2'', call_time = 2, call_name = ''marcus'',
                call_type = ''person'', call_aliases = Some [''Marc''], call_metadata = None \<rparr>"

text \<open>Two calls of \<open>track_entity\<close> with the same name, which starts with a space.\<close>

definition call_M1 :: entity_call where
  "call_M1 = \<lparr> call_uuid = ''id-1'', call_time = 1, call_name = '' Marcus'',
                call_type = ''person'', call_aliases = None, call_metadata = None \<rparr>"

definition call_M2 :: entity_call where
  "call_M2 = \<lparr> call_uuid = ''id-2'', call_time = 2, call_name = '' Marcus'',
                call_type = ''person'', call_aliases = Some [''Marc''], call_metadata = None \<rparr>"

text \<open>
  A connected gateway with one request, \<open>r1\<close>, in flight and a stream callback registered
  for it; a chunk, a stream end and a terminal response for \<open>r1\<close>, and a response for a
  request \<open>r2\<close>.
\<close>

definition sample_gateway_config :: GatewayConfig where
  "sample_gateway_config =
     \<lparr> reconnect_delay_base = 1, reconnect_delay_max = 3, reconnect_max_attempts = 3,
       gateway_response_timeout = 60 \<rparr>"

definition sample_gateway :: Gateway where
  "sample_gateway =
     fst (send_begin (fst (connect (new_gateway sample_gateway_config) True)) True True
            ''r1'' 0 [(''user_message'', PStr ''hi'')] None (Some (\<lambda>chunk. None)))"


definition msg_chunk :: pydict where
  "msg_chunk = [(''type'', PStr ''stream_chunk''), (''request_id'', PStr ''r1''),
                (''content'', PStr ''Hel'')]"



definition msg_other :: pydict where
  "msg_other = [(''request_id'', PStr ''r2''), (''content'', PStr ''Hi again'')]"

section \<open>Properties of the conversation context\<close>

subsection \<open>The window of turns in the payload\<close>

lemma brain_context_window_positive:
  "0 < window_size ctx \<Longrightarrow>
     bc_turns (get_brain_context ctx now) =
       map turn_view (drop (length (turns ctx) - nat (window_size ctx)) (turns ctx))
     \<and> length (bc_turns (get_brain_context ctx now)) = min (nat (window_size ctx)) (length (turns ctx))"
  by (simp add: get_brain_context_def slice_from_def Let_def)

lemma brain_context_window_zero:
  "window_size ctx = 0 \<Longrightarrow> bc_turns (get_brain_context ctx now) = map turn_view (turns ctx)"
  by (simp add: get_brain_context_def slice_from_def Let_def)

text \<open>
  Claim C5 says that for every window size, 0 included, the payload's turns are the last
  \<open>min(windowSize, total)\<close> turns. For a positive window this is
  \<open>brain_context_window_positive\<close>. For the window 0 the slice \<open>self._turns[-0:]\<close> is the
  whole list: with a window of 0 and one recorded turn, the payload holds that turn, where
  the claim asks for none.
\<close>

theorem window_size_zero_sends_every_turn:
  "(let ctx = fst (add_user_turn (new_context None 0 200 ''s1'' 0) ''t1'' 1 ''hello'' None)
    in window_size ctx = 0 \<and> length (turns ctx) = 1
       \<and> length (bc_turns (get_brain_context ctx 2)) = 1
       \<and> min (nat (window_size ctx)) (length (turns ctx)) = 0)"
  by (simp add: get_brain_context_def slice_from_def Let_def add_user_turn_def new_context_def)

subsection \<open>The entity registry\<close>


lemma set_alist_update_subset: "set (AList.update k v al) \<subseteq> insert (k, v) (set al)"
  by (induction al) auto












lemma reinforce_id: "entity_id (reinforce t al md e) = entity_id e"
  by (simp add: reinforce_def touch_def Let_def split: option.splits)














subsection \<open>Mentions of one entity\<close>

lemma track_entity_found:
  assumes "entities ctx = [(entity_id e, e)]" and "entity_matches (strip (lower n)) e"
  shows "entities (fst (track_entity ctx u t n ty al md)) = [(entity_id e, reinforce t al md e)]"
  using assms by (simp add: track_entity_def find_entity_def Let_def reinforce_id)

lemma reinforce_count: "reference_count (reinforce t al md e) = reference_count e + 1"
  by (simp add: reinforce_def touch_def Let_def split: option.splits)

lemma reinforce_name: "canonical_name (reinforce t al md e) = canonical_name e"
  by (simp add: reinforce_def touch_def Let_def split: option.splits)

lemma refers_keeps_one_entity:
  assumes "entities ctx = [(entity_id e, e)]" and "refers e cs"
  shows "\<exists>e'. entities (track_calls ctx cs) = [(entity_id e, e')]
              \<and> reference_count e' = reference_count e + int (length cs)
              \<and> canonical_name e' = canonical_name e"
  using assms
proof (induction cs arbitrary: ctx e)
  case Nil
  then show ?case by (simp add: track_calls_def)
next
  case (Cons c cs)
  let ?e1 = "reinforce (call_time c) (call_aliases c) (call_metadata c) e"
  have m: "entity_matches (strip (lower (call_name c))) e"
    using Cons.prems(2) by (auto simp: entity_matches_def list_ex_iff)
  have 1: "entities (track_call ctx c) = [(entity_id ?e1, ?e1)]"
    using track_entity_found[OF Cons.prems(1) m] by (simp add: track_call_def reinforce_id)
  have 2: "refers ?e1 cs" using Cons.prems(2) by simp
  obtain e' where "entities (track_calls (track_call ctx c) cs) = [(entity_id ?e1, e')]"
    "reference_count e' = reference_count ?e1 + int (length cs)"
    "canonical_name e' = canonical_name ?e1"
    using Cons.IH[OF 1 2] by blast
  then show ?case
    by (simp add: track_calls_def reinforce_id reinforce_count reinforce_name)
qed

lemma unpadded_mentions_count:
  assumes cap: "1 \<le> cap"
    and r: "refers (fresh_entity (call_uuid c) (call_time c) (call_name c) (call_type c)
                     (call_aliases c) (call_metadata c)) cs"
  shows "\<exists>e. entities (track_calls (new_context sid w cap u0 t0) (c # cs)) = [(call_uuid c, e)]
            \<and> reference_count e = int (length (c # cs))
            \<and> canonical_name e = call_name c"
proof -
  let ?e0 = "fresh_entity (call_uuid c) (call_time c) (call_name c) (call_type c)
               (call_aliases c) (call_metadata c)"
  have 1: "entities (track_call (new_context sid w cap u0 t0) c) = [(entity_id ?e0, ?e0)]"
    using cap
    by (simp add: track_call_def track_entity_def find_entity_def new_context_def
          insert_entity_def Let_def fresh_entity_def)
  obtain e' where "entities (track_calls (track_call (new_context sid w cap u0 t0) c) cs) = [(entity_id ?e0, e')]"
    "reference_count e' = reference_count ?e0 + int (length cs)"
    "canonical_name e' = canonical_name ?e0"
    using refers_keeps_one_entity[OF 1 r] by blast
  then show ?thesis
    by (simp add: track_calls_def fresh_entity_def)
qed

lemma merge_aliases_keeps: "set existing \<subseteq> set (merge_aliases existing new)"
  by (induction existing new rule: merge_aliases.induct) auto

lemma merge_aliases_unique:
  "distinct (map lower existing) \<Longrightarrow> distinct (map lower (merge_aliases existing new))"
  by (induction existing new rule: merge_aliases.induct) auto

lemma merge_aliases_covers:
  "lower ` set new \<subseteq> lower ` set (merge_aliases existing new)"
proof (induction existing new rule: merge_aliases.induct)
  case (1 existing)
  then show ?case by simp
next
  case (2 existing a rest)
  let ?ex = "if List.member (map lower existing) (lower a) then existing else existing @ [a]"
  have "lower a \<in> lower ` set ?ex" by auto
  moreover have "set ?ex \<subseteq> set (merge_aliases ?ex rest)" by (rule merge_aliases_keeps)
  ultimately have "lower a \<in> lower ` set (merge_aliases ?ex rest)" by blast
  then show ?case using 2 by auto
qed

lemma reinforce_metadata:
  "entity_metadata (reinforce t al (Some m) e) = dict_update (entity_metadata e) m"
  by (simp add: reinforce_def touch_def Let_def dict_update_def split: option.splits)

lemma marcus_is_tracked_once:
  "map (\<lambda>p. (fst p, canonical_name (snd p), reference_count (snd p), aliases (snd p)))
     (entities (track_calls (new_context None 20 200 ''s1'' 0) [call_N1, call_N2]))
     = [(''id-1'', ''Marcus'', 2, [''Marc''])]"
  by (simp add: track_calls_def track_call_def track_entity_def find_entity_def
        entity_matches_def insert_entity_def fresh_entity_def reinforce_def touch_def
        new_context_def lower_def lower_char_def strip_def is_space_def Let_def
        call_N1_def call_N2_def)

text \<open>
  Claim C4 says that \<open>n\<close> calls of \<open>track_entity\<close> with the same canonical name leave one
  entity, with reference count \<open>n\<close>. For names without white space around them this is
  \<open>unpadded_mentions_count\<close>. \<open>find_entity\<close> strips the name it looks for and compares it
  with the stored names as they are: an entity whose name starts with a space is never
  found again, under its own name. Two calls with the name \<open>" Marcus"\<close> leave two
  entities, each with reference count 1.
\<close>

theorem padded_name_is_tracked_twice:
  "length (entities (track_calls (new_context None 20 200 ''s1'' 0) [call_M1, call_M2])) = 2
   \<and> map (\<lambda>p. (canonical_name (snd p), reference_count (snd p), aliases (snd p)))
        (entities (track_calls (new_context None 20 200 ''s1'' 0) [call_M1, call_M2]))
        = [('' Marcus'', 1, []), ('' Marcus'', 1, [''Marc''])]
   \<and> find_entity (track_calls (new_context None 20 200 ''s1'' 0) [call_M1, call_M2]) '' Marcus''
        = None"
  by (simp add: track_calls_def track_call_def track_entity_def find_entity_def
        entity_matches_def insert_entity_def fresh_entity_def new_context_def
        lower_def lower_char_def strip_def is_space_def Let_def call_M1_def call_M2_def)

section \<open>Properties of the engine\<close>

subsection \<open>A new session\<close>

text \<open>
  Claim C10: after \<open>new_session\<close>, whatever the engine held before, the new context has no
  turn, no entity (no name is found any more), no topic and an empty summary; the id
  returned is the one drawn for the new context; the new tracker is in \<open>IDLE\<close>, its
  current snapshot is open and is the only one of its history.
\<close>

theorem new_session_is_blank:
  "turns (engine_context (fst (new_session eng uuid t1 t2))) = []
   \<and> entities (engine_context (fst (new_session eng uuid t1 t2))) = []
   \<and> find_entity (engine_context (fst (new_session eng uuid t1 t2))) name = None
   \<and> topic_stack (engine_context (fst (new_session eng uuid t1 t2))) = []
   \<and> session_summary (engine_context (fst (new_session eng uuid t1 t2))) = []
   \<and> snd (new_session eng uuid t1 t2) = uuid
   \<and> session_id (engine_context (fst (new_session eng uuid t1 t2))) = uuid
   \<and> current_state (tracker (fst (new_session eng uuid t1 t2))) = IDLE
   \<and> exited_at (current (tracker (fst (new_session eng uuid t1 t2)))) = None
   \<and> history (tracker (fst (new_session eng uuid t1 t2)))
        = [current (tracker (fst (new_session eng uuid t1 t2)))]
   \<and> length (history (tracker (fst (new_session eng uuid t1 t2)))) = 1"
  by (simp add: new_session_def new_context_def new_tracker_def current_state_def
        find_entity_def Let_def)

subsection \<open>Failure of the send\<close>

lemma maybe_compress_keeps:
  "config (maybe_compress_context eng env) = config eng"
  "tracker (maybe_compress_context eng env) = tracker eng"
  "fired (maybe_compress_context eng env) = fired eng"
  "turns (engine_context (maybe_compress_context eng env)) = turns (engine_context eng)"
  by (simp_all add: maybe_compress_context_def Let_def update_session_summary_def
        split: sum.splits option.splits pyval.splits)

lemma send_failure_body:
  assumes "send_result env = Inl exc"
  shows "snd (process_body eng env inp md) = Inl exc"
    and "config (fst (process_body eng env inp md)) = config eng"
    and "tracker (fst (process_body eng env inp md)) = tracker eng"
    and "fired (fst (process_body eng env inp md)) = fired eng"
  using assms
  by (simp_all add: process_body_def Let_def maybe_compress_keeps add_user_turn_def)

text \<open>
  When the send fails with a timeout or a connection error and the error callback is absent
  or returns, \<open>process\<close> returns the error response (apology, intent \<open>error\<close>, confidence
  0.0, state \<open>ERROR_RECOVERY\<close>), the apology is the last turn, a brain turn, the tracker is
  in \<open>ERROR_RECOVERY\<close> and the callback has been called.
\<close>

lemma process_recovers_from_send_failure:
  assumes st: "started eng \<or> connect_result env = None"
    and sf: "send_result env = Inl exc"
    and kind: "exc = TimeoutError m \<or> exc = ConnectionError m"
    and quiet: "on_error (config eng) = None
                \<or> (\<exists>f. on_error (config eng) = Some f \<and> f (reported exc) = None)"
  shows "snd (process eng env inp md) = Inr (error_response (apology exc))
       \<and> resp_text (error_response (apology exc)) = PStr (apology exc)
       \<and> resp_intent (error_response (apology exc)) = PStr ''error''
       \<and> confidence (error_response (apology exc)) = PFloat 0
       \<and> resp_state (error_response (apology exc)) = Some ERROR_RECOVERY
       \<and> current_state (tracker (fst (process eng env inp md))) = ERROR_RECOVERY
       \<and> role (last (turns (engine_context (fst (process eng env inp md))))) = BRAIN
       \<and> content (last (turns (engine_context (fst (process eng env inp md))))) = PStr (apology exc)
       \<and> intent (last (turns (engine_context (fst (process eng env inp md))))) = PStr ''error''
       \<and> fired (fst (process eng env inp md)) =
            fired eng @ (if on_error (config eng) = None then [] else [OnError (reported exc)])
       \<and> \<not> processing (fst (process eng env inp md))"
proof -
  define eng0 where "eng0 = (if started eng then eng else eng\<lparr>started := True\<rparr>)"
  have s0: "start eng (connect_result env) = (eng0, None)"
    using st by (auto simp: start_def eng0_def)
  have e0: "config eng0 = config eng" "tracker eng0 = tracker eng" "fired eng0 = fired eng"
    by (simp_all add: eng0_def)
  let ?b = "process_body (eng0\<lparr>processing := True\<rparr>) env inp md"
  have b: "snd ?b = Inl exc" "config (fst ?b) = config eng" "tracker (fst ?b) = tracker eng"
    "fired (fst ?b) = fired eng"
    using send_failure_body[OF sf, of "eng0\<lparr>processing := True\<rparr>" inp md] e0 by simp_all
  have p: "process eng env inp md =
      ((fst (handle_exception (fst ?b) env exc))\<lparr>processing := False\<rparr>,
       snd (handle_exception (fst ?b) env exc))"
    using s0 b(1) by (simp add: process_def Let_def)
  have h: "handle_exception (fst ?b) env exc = recover (fst ?b) env (apology exc) (reported exc)"
    using kind by (auto simp: handle_exception_def apology_def reported_def)
  show ?thesis
    using quiet kind unfolding p h
    by (auto simp: recover_def Let_def b error_response_def brain_response_def
          add_brain_turn_def transition_def current_state_def)
qed

text \<open>
  Claim C1 says that \<open>process\<close> never raises to its caller when the send fails with a
  timeout or a connection error. The handlers call \<open>on_error\<close> outside any \<open>try\<close>
  (\<open>on_response\<close> and \<open>on_action\<close> are called inside one): with an error callback that
  raises, a timeout of the send ends \<open>process\<close> with the callback's exception, after the
  apology has been recorded and the tracker moved to \<open>ERROR_RECOVERY\<close>.
\<close>

theorem raising_error_callback_leaves_process:
  "snd (process (sample_engine (Some (\<lambda>e. Some (CallbackError ''boom''))))
          (sample_env (Inl (TimeoutError ''Timed out''))) ''Hello?'' None)
     = Inl (CallbackError ''boom'')
   \<and> fired (fst (process (sample_engine (Some (\<lambda>e. Some (CallbackError ''boom''))))
          (sample_env (Inl (TimeoutError ''Timed out''))) ''Hello?'' None))
     = [OnError (TimeoutError ''Brain timeout'')]
   \<and> current_state (tracker (fst (process (sample_engine (Some (\<lambda>e. Some (CallbackError ''boom''))))
          (sample_env (Inl (TimeoutError ''Timed out''))) ''Hello?'' None)))
     = ERROR_RECOVERY
   \<and> map content (turns (engine_context (fst (process
          (sample_engine (Some (\<lambda>e. Some (CallbackError ''boom''))))
          (sample_env (Inl (TimeoutError ''Timed out''))) ''Hello?'' None))))
     = [PStr ''Hello?'', PStr timeout_apology]"
  by (simp add: process_def start_def sample_engine_def sample_env_def sample_config_def
        new_engine_def process_body_def Let_def add_user_turn_def new_context_def
        handle_exception_def recover_def get_brain_context_def build_brain_payload_def
        add_brain_turn_def transition_def new_tracker_def current_state_def
        error_response_def brain_response_def)

subsection \<open>Parsing a response\<close>



text \<open>A string that decodes to something other than an object is not covered by the
  fallback: the first \<open>content.get\<close> raises.\<close>

lemma decoded_scalar_raises:
  assumes "map_of data ''content'' = Some (PStr s)" and "loads s = Some (PInt n)"
  shows "from_gateway_response loads data latency = Inl AttributeError"
  using assms by (simp add: from_gateway_response_def dict_get_def)

section \<open>Properties of the gateway\<close>

subsection \<open>Settlement of a request\<close>

lemma dispatch_tables:
  "pending (dispatch gw m) = pending gw"
  "stream_callbacks (dispatch gw m) = stream_callbacks gw"
  "gateway_config (dispatch gw m) = gateway_config gw"
  "status (dispatch gw m) = status gw"
  by (simp_all add: dispatch_def settle_def Let_def)

lemma settle_other:
  "r \<noteq> rid \<Longrightarrow> future_of (settle gw r f) rid = future_of gw rid"
  "r \<noteq> rid \<Longrightarrow> settlements_of rid (settle gw r f) = settlements_of rid gw"
  by (simp_all add: settle_def future_of_def settlements_of_def update_conv)

lemma settle_same:
  "future_of (settle gw rid f) rid = f"
  "settlements_of rid (settle gw rid f) = settlements_of rid gw @ [f]"
  by (simp_all add: settle_def future_of_def settlements_of_def update_conv)

lemma delivered_update:
  "future_of (gw\<lparr>delivered := d\<rparr>) rid = future_of gw rid"
  "settlements_of rid (gw\<lparr>delivered := d\<rparr>) = settlements_of rid gw"
  by (simp_all add: future_of_def settlements_of_def)

lemma dispatch_done:
  assumes "future_of gw rid \<noteq> Waiting"
  shows "future_of (dispatch gw m) rid = future_of gw rid"
    and "settlements_of rid (dispatch gw m) = settlements_of rid gw"
proof -
  have "future_of (dispatch gw m) rid = future_of gw rid
      \<and> settlements_of rid (dispatch gw m) = settlements_of rid gw"
  proof (cases "str_of (dict_get m ''request_id'' PNone) = rid")
    case True
    then show ?thesis
      using assms
      by (auto simp: dispatch_def Let_def future_done_def delivered_update)
  next
    case False
    then show ?thesis
      by (auto simp: dispatch_def Let_def settle_other delivered_update)
  qed
  then show "future_of (dispatch gw m) rid = future_of gw rid"
    and "settlements_of rid (dispatch gw m) = settlements_of rid gw" by simp_all
qed

lemma dispatch_all_done:
  assumes "future_of gw rid \<noteq> Waiting"
  shows "future_of (dispatch_all gw ms) rid = future_of gw rid
       \<and> settlements_of rid (dispatch_all gw ms) = settlements_of rid gw"
  using assms unfolding dispatch_all_def
  by (induction ms arbitrary: gw) (simp_all add: dispatch_done)

lemma dispatch_waiting:
  assumes reg: "map_of (pending gw) rid \<noteq> None" and ne: "rid \<noteq> []"
    and w: "future_of gw rid = Waiting"
  shows "future_of (dispatch gw m) rid = (if settling gw rid m then outcome_of m else Waiting)"
    and "settlements_of rid (dispatch gw m) =
           settlements_of rid gw @ (if settling gw rid m then [outcome_of m] else [])"
proof -
  have "future_of (dispatch gw m) rid = (if settling gw rid m then outcome_of m else Waiting)
     \<and> settlements_of rid (dispatch gw m) =
           settlements_of rid gw @ (if settling gw rid m then [outcome_of m] else [])"
  proof (cases "dict_get m ''request_id'' PNone = PStr rid")
    case True
    then show ?thesis
      using reg ne w
      by (auto simp: dispatch_def Let_def settling_def chunk_for_def registered_def str_of_def
            future_done_def settle_same outcome_of_def delivered_update)
  next
    case False
    have "str_of (dict_get m ''request_id'' PNone) \<noteq> rid
          \<or> \<not> registered (dict_get m ''request_id'' PNone) (pending gw)"
      using False ne by (auto simp: str_of_def registered_def split: pyval.splits)
    then show ?thesis
      using False w
      by (auto simp: dispatch_def Let_def settling_def settle_other delivered_update)
  qed
  then show "future_of (dispatch gw m) rid = (if settling gw rid m then outcome_of m else Waiting)"
    and "settlements_of rid (dispatch gw m) =
           settlements_of rid gw @ (if settling gw rid m then [outcome_of m] else [])"
    by simp_all
qed

lemma outcome_not_waiting: "outcome_of m \<noteq> Waiting"
  by (simp add: outcome_of_def)

lemma settling_dispatch: "settling (dispatch gw m) rid = settling gw rid"
  by (rule ext) (simp add: settling_def chunk_for_def dispatch_tables)

lemma dispatch_all_waiting:
  assumes "map_of (pending gw) rid \<noteq> None" and "rid \<noteq> []" and "future_of gw rid = Waiting"
  shows "future_of (dispatch_all gw ms) rid =
           (case find (settling gw rid) ms of None \<Rightarrow> Waiting | Some m \<Rightarrow> outcome_of m)
       \<and> settlements_of rid (dispatch_all gw ms) =
           settlements_of rid gw @
             (case find (settling gw rid) ms of None \<Rightarrow> [] | Some m \<Rightarrow> [outcome_of m])"
  using assms
proof (induction ms arbitrary: gw)
  case Nil
  then show ?case by (simp add: dispatch_all_def)
next
  case (Cons m ms)
  have step: "dispatch_all gw (m # ms) = dispatch_all (dispatch gw m) ms"
    by (simp add: dispatch_all_def)
  show ?case
  proof (cases "settling gw rid m")
    case True
    have "future_of (dispatch gw m) rid \<noteq> Waiting"
      using dispatch_waiting(1)[OF Cons.prems] True by (simp add: outcome_not_waiting)
    from dispatch_all_done[OF this, of ms] show ?thesis
      using True dispatch_waiting[OF Cons.prems, of m] by (simp add: step)
  next
    case False
    have w: "future_of (dispatch gw m) rid = Waiting"
      using dispatch_waiting(1)[OF Cons.prems] False by simp
    have reg: "map_of (pending (dispatch gw m)) rid \<noteq> None"
      using Cons.prems(1) by (simp add: dispatch_tables)
    show ?thesis
      using Cons.IH[OF reg Cons.prems(2) w] False dispatch_waiting(2)[OF Cons.prems, of m]
      by (simp add: step settling_dispatch)
  qed
qed

lemma dispatch_chunks:
  "chunks_of rid (dispatch gw m) =
     chunks_of rid gw @ (if chunk_for gw rid m then [dict_get m ''content'' (PStr [])] else [])"
proof (cases "dict_get m ''request_id'' PNone = PStr rid")
  case True
  then show ?thesis
    by (auto simp: dispatch_def Let_def chunk_for_def chunks_of_def registered_def str_of_def
          settle_def)
next
  case False
  then show ?thesis
    by (auto simp: dispatch_def Let_def chunk_for_def chunks_of_def registered_def str_of_def
          settle_def split: pyval.splits)
qed






subsection \<open>A request that is never answered\<close>

lemma forget_removes:
  "map_of (pending (forget gw rid)) rid = None"
  "map_of (stream_callbacks (forget gw rid)) rid = None"
  by (simp_all add: forget_def delete_conv)

lemma send_end_forgets:
  "map_of (pending (fst (send_end gw rid))) rid = None"
  "map_of (stream_callbacks (fst (send_end gw rid))) rid = None"
  by (simp_all add: send_end_def forget_def delete_conv split: future.splits)

lemma send_begin_registers:
  assumes "send_begin gw reach ok rid now pl tmo cb = (gw1, Inr r)"
  shows "r = rid" and "map_of (pending gw1) rid \<noteq> None" and "future_of gw1 rid = Waiting"
    and "cb \<noteq> None \<Longrightarrow> map_of (stream_callbacks gw1) rid \<noteq> None"
    and "status gw1 = CONNECTED"
  using assms
  by (auto simp: send_begin_def Let_def raw_send_def connect_def future_of_def update_conv
        split: if_splits option.splits prod.splits)

text \<open>Once \<open>send\<close> has returned or raised, a message with its request id is unsolicited.\<close>

lemma unsolicited_is_discarded:
  assumes "map_of (pending gw) rid = None" and "map_of (stream_callbacks gw) rid = None"
  shows "future_of (dispatch gw m) rid = future_of gw rid
       \<and> settlements_of rid (dispatch gw m) = settlements_of rid gw
       \<and> chunks_of rid (dispatch gw m) = chunks_of rid gw"
proof (cases "dict_get m ''request_id'' PNone = PStr rid")
  case True
  then show ?thesis
    using assms by (simp add: dispatch_def Let_def registered_def)
next
  case False
  then have "str_of (dict_get m ''request_id'' PNone) \<noteq> rid
          \<or> \<not> truthy (dict_get m ''request_id'' PNone)
          \<or> \<not> registered (dict_get m ''request_id'' PNone) (pending gw)"
    by (auto simp: str_of_def registered_def split: pyval.splits)
  moreover have "chunks_of rid (dispatch gw m) = chunks_of rid gw"
    using False by (simp add: dispatch_chunks chunk_for_def)
  ultimately show ?thesis
    by (auto simp: dispatch_def Let_def settle_other delivered_update)
qed

lemma answer_after_send_returned_is_discarded:
  "future_of (dispatch (fst (send_end gw rid)) m) rid = future_of (fst (send_end gw rid)) rid
   \<and> settlements_of rid (dispatch (fst (send_end gw rid)) m)
       = settlements_of rid (fst (send_end gw rid))
   \<and> chunks_of rid (dispatch (fst (send_end gw rid)) m) = chunks_of rid (fst (send_end gw rid))"
  by (rule unsolicited_is_discarded) (rule send_end_forgets)+

text \<open>
  Claim C7: a call of \<open>send\<close> has registered and transmitted its request; no inbound
  message settles it. When the timeout of the wait elapses, \<open>send\<close> raises a timeout
  error, and afterwards the request id is in neither the pending table nor the table of
  stream callbacks.
\<close>

theorem unanswered_send_times_out:
  assumes sb: "send_begin gw reach ok rid now pl tmo cb = (gw1, Inr r)"
    and ne: "rid \<noteq> []"
    and un: "\<forall>m \<in> set ms. \<not> settling gw1 rid m"
  shows "snd (send_end (dispatch_all gw1 ms) rid)
           = Inl (TimeoutError ''Brain did not respond within the timeout'')
       \<and> map_of (pending (fst (send_end (dispatch_all gw1 ms) rid))) rid = None
       \<and> map_of (stream_callbacks (fst (send_end (dispatch_all gw1 ms) rid))) rid = None"
proof -
  have "find (settling gw1 rid) ms = None"
    using un by (simp add: find_None_iff)
  then have "future_of (dispatch_all gw1 ms) rid = Waiting"
    using dispatch_all_waiting[OF send_begin_registers(2)[OF sb] ne send_begin_registers(3)[OF sb], of ms]
    by simp
  then show ?thesis
    by (simp add: send_end_def send_end_forgets forget_removes)
qed


theorem unanswered_send_times_out_witness:
  "snd (send_begin (fst (connect (new_gateway sample_gateway_config) True)) True True
          ''r1'' 0 [(''user_message'', PStr ''hi'')] None (Some (\<lambda>chunk. None))) = Inr ''r1''
   \<and> \<not> settling sample_gateway ''r1'' msg_other
   \<and> \<not> settling sample_gateway ''r1'' msg_chunk
   \<and> snd (send_end (dispatch_all sample_gateway [msg_other, msg_chunk]) ''r1'')
        = Inl (TimeoutError ''Brain did not respond within the timeout'')
   \<and> map_of (pending (fst (send_end (dispatch_all sample_gateway [msg_other, msg_chunk]) ''r1'')))
        ''r1'' = None
   \<and> map_of (stream_callbacks
        (fst (send_end (dispatch_all sample_gateway [msg_other, msg_chunk]) ''r1''))) ''r1'' = None"
  using unanswered_send_times_out
          [of "fst (connect (new_gateway sample_gateway_config) True)" True True "''r1''" 0
              "[(''user_message'', PStr ''hi'')]" None "Some (\<lambda>chunk. None)"
              sample_gateway "''r1''" "[msg_other, msg_chunk]"]
  by (simp add: sample_gateway_def sample_gateway_config_def send_begin_def connect_def
        new_gateway_def raw_send_def dict_update_def Let_def dict_get_def future_of_def
        dispatch_all_def dispatch_def registered_def str_of_def future_done_def settle_def
        msg_chunk_def msg_other_def settling_def chunk_for_def forget_def send_end_def)

subsection \<open>Disconnecting\<close>

lemma fold_fail_future:
  "future_of (fold (\<lambda>req g. if \<not> future_done g (request_id req)
                               then settle g (request_id req) (Exception e) else g) reqs gw) rid
     = (if rid \<in> request_id ` set reqs \<and> future_of gw rid = Waiting
        then Exception e else future_of gw rid)"
proof (induction reqs arbitrary: gw)
  case Nil
  then show ?case by simp
next
  case (Cons req reqs)
  let ?F = "\<lambda>req g. if \<not> future_done g (request_id req)
                       then settle g (request_id req) (Exception e) else g"
  let ?g1 = "?F req gw"
  have 1: "future_of ?g1 rid =
             (if request_id req = rid \<and> future_of gw rid = Waiting
              then Exception e else future_of gw rid)"
    by (cases "request_id req = rid") (auto simp: future_done_def settle_same settle_other)
  have "future_of (fold ?F (req # reqs) gw) rid =
          (if rid \<in> request_id ` set reqs \<and> future_of ?g1 rid = Waiting
           then Exception e else future_of ?g1 rid)"
    using Cons.IH[of ?g1] by (simp only: fold_simps)
  then show ?case
    unfolding 1 by auto
qed


lemma pending_ids:
  assumes "pending_ok gw"
  shows "(rid \<in> request_id ` set (map snd (pending gw))) = (map_of (pending gw) rid \<noteq> None)"
proof -
  have "list_all (\<lambda>p. fst p = request_id (snd p)) ps \<Longrightarrow>
          map request_id (map snd ps) = map fst ps" for ps :: "(string \<times> PendingRequest) list"
    by (induction ps) auto
  then have "map request_id (map snd (pending gw)) = map fst (pending gw)"
    using assms unfolding pending_ok_def by blast
  then have "request_id ` set (map snd (pending gw)) = fst ` set (pending gw)"
    by (metis image_set)
  then show ?thesis by (simp add: map_of_eq_None_iff)
qed

lemma fail_pending_future:
  assumes "pending_ok gw"
  shows "future_of (fail_pending msg gw) rid
           = (if map_of (pending gw) rid \<noteq> None \<and> future_of gw rid = Waiting
              then Exception (ConnectionError msg) else future_of gw rid)"
  unfolding fail_pending_def fold_fail_future pending_ids[OF assms] by simp


lemma future_of_fields:
  "future_of (gw\<lparr>pending := p\<rparr>) rid = future_of gw rid"
  "future_of (gw\<lparr>ws := w\<rparr>) rid = future_of gw rid"
  "future_of (gw\<lparr>status := s\<rparr>) rid = future_of gw rid"
  "future_of (gw\<lparr>reconnect_attempt := n\<rparr>) rid = future_of gw rid"
  "future_of (gw\<lparr>slept := sl\<rparr>) rid = future_of gw rid"
  "future_of (gw\<lparr>transmitted := tr\<rparr>) rid = future_of gw rid"
  "future_of (gw\<lparr>reconnect_tasks := k\<rparr>) rid = future_of gw rid"
  by (simp_all add: future_of_def)

text \<open>
  Claim C6, as the code has it: after \<open>disconnect\<close> the pending table is empty, the status
  is \<open>DISCONNECTED\<close> and every request that was in the table has a future that is done:
  one that was still waiting now fails with \<open>ConnectionError("Gateway disconnected")\<close>,
  which is what its \<open>send\<close> raises. A \<open>send\<close> issued afterwards calls \<open>connect\<close>
  itself, because the status is not \<open>CONNECTED\<close>: it fails with a connection error, with
  nothing registered, when the endpoint is not reachable, and it gets as far as the wait only
  when that connect has succeeded.
\<close>

theorem disconnect_fails_pending:
  assumes ok: "pending_ok gw"
  shows "pending (disconnect gw) = [] \<and> status (disconnect gw) = DISCONNECTED
       \<and> \<not> ws (disconnect gw)
       \<and> (\<forall>rid. map_of (pending gw) rid \<noteq> None \<longrightarrow>
             future_done (disconnect gw) rid
             \<and> (if future_done gw rid
                then future_of (disconnect gw) rid = future_of gw rid
                else future_of (disconnect gw) rid
                       = Exception (ConnectionError ''Gateway disconnected'')
                   \<and> snd (send_end (disconnect gw) rid)
                       = Inl (ConnectionError ''Gateway disconnected'')))
       \<and> (\<forall>ok uuid now pl tmo cb.
             snd (send_begin (disconnect gw) False ok uuid now pl tmo cb)
               = Inl (ConnectionError ''Cannot reach OpenClaw gateway'')
             \<and> pending (fst (send_begin (disconnect gw) False ok uuid now pl tmo cb)) = [])
       \<and> (\<forall>reach ok uuid now pl tmo cb r.
             snd (send_begin (disconnect gw) reach ok uuid now pl tmo cb) = Inr r \<longrightarrow>
             reach \<and> status (fst (send_begin (disconnect gw) reach ok uuid now pl tmo cb)) = CONNECTED)"
proof -
  have f: "\<And>rid. future_of (disconnect gw) rid
             = (if map_of (pending gw) rid \<noteq> None \<and> future_of gw rid = Waiting
                then Exception (ConnectionError ''Gateway disconnected'') else future_of gw rid)"
    by (simp add: disconnect_def future_of_fields fail_pending_future[OF ok])
  have a: "pending (disconnect gw) = [] \<and> status (disconnect gw) = DISCONNECTED \<and> \<not> ws (disconnect gw)"
    by (simp add: disconnect_def)
  have b: "\<forall>rid. map_of (pending gw) rid \<noteq> None \<longrightarrow>
             future_done (disconnect gw) rid
             \<and> (if future_done gw rid
                then future_of (disconnect gw) rid = future_of gw rid
                else future_of (disconnect gw) rid
                       = Exception (ConnectionError ''Gateway disconnected'')
                   \<and> snd (send_end (disconnect gw) rid)
                       = Inl (ConnectionError ''Gateway disconnected''))"
    by (auto simp: future_done_def f send_end_def)
  have c: "\<forall>ok uuid now pl tmo cb.
             snd (send_begin (disconnect gw) False ok uuid now pl tmo cb)
               = Inl (ConnectionError ''Cannot reach OpenClaw gateway'')
             \<and> pending (fst (send_begin (disconnect gw) False ok uuid now pl tmo cb)) = []"
    by (simp add: send_begin_def connect_def disconnect_def)
  have d: "\<forall>reach ok uuid now pl tmo cb r.
             snd (send_begin (disconnect gw) reach ok uuid now pl tmo cb) = Inr r \<longrightarrow>
             reach \<and> status (fst (send_begin (disconnect gw) reach ok uuid now pl tmo cb)) = CONNECTED"
    by (auto simp: send_begin_def connect_def disconnect_def raw_send_def Let_def
          split: if_splits option.splits prod.splits)
  show ?thesis using a b c d by blast
qed

text \<open>
  Claim C6 says that no \<open>send\<close> succeeds after a disconnect until the caller calls
  \<open>connect\<close>. Here a \<open>send\<close> is issued on the disconnected gateway, with no call of
  \<open>connect\<close> by the caller; the endpoint is reachable, the response arrives, and \<open>send\<close>
  returns it.
\<close>

theorem send_after_disconnect_connects_itself:
  "status (disconnect sample_gateway) = DISCONNECTED
   \<and> snd (send_begin (disconnect sample_gateway) True True ''r2'' 5
            [(''user_message'', PStr ''again'')] None None) = Inr ''r2''
   \<and> snd (send_end (dispatch (fst (send_begin (disconnect sample_gateway) True True ''r2'' 5
                                     [(''user_message'', PStr ''again'')] None None)) msg_other)
             ''r2'') = Inr msg_other"
  by (simp add: sample_gateway_def sample_gateway_config_def send_begin_def connect_def
        new_gateway_def raw_send_def dict_update_def Let_def dict_get_def future_of_def
        dispatch_all_def dispatch_def registered_def str_of_def future_done_def settle_def
        msg_other_def forget_def send_end_def disconnect_def fail_pending_def)

theorem disconnect_fails_pending_witness:
  "pending_ok sample_gateway
   \<and> map_of (pending sample_gateway) ''r1'' \<noteq> None
   \<and> \<not> future_done sample_gateway ''r1''
   \<and> pending (disconnect sample_gateway) = []
   \<and> status (disconnect sample_gateway) = DISCONNECTED
   \<and> future_of (disconnect sample_gateway) ''r1''
        = Exception (ConnectionError ''Gateway disconnected'')
   \<and> snd (send_end (disconnect sample_gateway) ''r1'')
        = Inl (ConnectionError ''Gateway disconnected'')
   \<and> snd (send_begin (disconnect sample_gateway) False True ''r2'' 5
             [(''user_message'', PStr ''again'')] None None)
        = Inl (ConnectionError ''Cannot reach OpenClaw gateway'')"
  using disconnect_fails_pending[of sample_gateway]
  by (simp add: sample_gateway_def sample_gateway_config_def send_begin_def connect_def
        new_gateway_def raw_send_def dict_update_def Let_def dict_get_def future_of_def
        future_done_def settle_def forget_def send_end_def disconnect_def fail_pending_def pending_ok_def)

subsection \<open>Reconnecting\<close>

lemma connect_fields:
  "gateway_config (fst (connect gw r)) = gateway_config gw"
  "pending (fst (connect gw r)) = pending gw"
  "slept (fst (connect gw r)) = slept gw"
  "future_of (fst (connect gw r)) rid = future_of gw rid"
  by (simp_all add: connect_def future_of_def)










subsection \<open>Requests are stored under their own id\<close>

lemma pending_ok_update:
  "pending_ok gw \<Longrightarrow> request_id req = rid \<Longrightarrow>
     pending_ok (gw\<lparr>pending := AList.update rid req (pending gw)\<rparr>)"
proof -
  assume a: "pending_ok gw" "request_id req = rid"
  have "set (AList.update rid req (pending gw)) \<subseteq> insert (rid, req) (set (pending gw))"
    by (rule set_alist_update_subset)
  then show ?thesis using a by (auto simp: pending_ok_def list_all_iff)
qed

lemma pending_ok_steps:
  "pending_ok (new_gateway cfg)"
  "pending_ok gw \<Longrightarrow> pending_ok (fst (connect gw r))"
  "pending_ok (disconnect gw)"
  "pending_ok gw \<Longrightarrow> pending_ok (dispatch gw m)"
  "pending_ok gw \<Longrightarrow> pending_ok (fst (send_end gw rid))"
  by (auto simp: pending_ok_def new_gateway_def connect_fields disconnect_def dispatch_tables
        send_end_def forget_def AList.delete_eq list_all_iff split: future.splits)

lemma pending_ok_send_begin:
  assumes "pending_ok gw"
  shows "pending_ok (fst (send_begin gw reach ok rid now pl tmo cb))"
proof -
  show ?thesis
    using assms
    by (auto simp: send_begin_def Let_def raw_send_def connect_def pending_ok_def forget_def
          AList.delete_eq list_all_iff
          dest!: set_mp[OF set_alist_update_subset]
          split: if_splits option.splits prod.splits)
qed

end
